theory Spec2Isabelle
  imports
    Complex_Main
    "HOL-Library.AList"
    "HOL-Library.Char_ord"
    "HOL-Library.List_Lexorder"
    "HOL-Library.Sublist"
    "HOL-Library.Multiset"
begin

section \<open>Values, errors and Python helpers\<close>

text \<open>
  The analyzer of \<^verbatim>\<open>backend/services/medical_analyzer.py\<close> works on Python
  dictionaries. A dictionary is an association list in insertion order; \<open>map_of\<close> is the
  lookup and \<open>AList.update\<close> the assignment \<^verbatim>\<open>d[k] = v\<close> (in place when the key
  exists, appended otherwise). Numbers (\<^verbatim>\<open>int\<close> and finite \<^verbatim>\<open>float\<close>) are exact
  rationals: comparisons, thresholds and divisions are those of the source, rounding
  error of binary floating point is not represented. The exceptions the analyzer can
  raise are constructors of \<open>error\<close>.
\<close>

datatype error = ZeroDivisionError | UnboundLocalError | TypeError

type_synonym 'a dict = "(string \<times> 'a) list"

text \<open>True division \<^verbatim>\<open>a / b\<close> raises on a zero divisor.\<close>

definition py_div :: "rat \<Rightarrow> rat \<Rightarrow> error + rat" where
  "py_div a b = (if b = 0 then Inl ZeroDivisionError else Inr (a / b))"

text \<open>\<^verbatim>\<open>round(x, n)\<close>: to \<open>n\<close> decimals, a tie going to the even neighbour.\<close>

definition py_round :: "rat \<Rightarrow> nat \<Rightarrow> rat" where
  "py_round x n =
     (let s = x * 10 ^ n;
          f = \<lfloor>s\<rfloor>;
          d = s - of_int f;
          r = (if d < 1 / 2 then f
               else if 1 / 2 < d then f + 1
               else if even f then f else f + 1)
      in of_int r / 10 ^ n)"

text \<open>
  \<^verbatim>\<open>datetime.now().isoformat()\<close> reads the clock. A call of the analyzer is given
  the readings it will see: \<open>clk k\<close> is the text of the \<open>k\<close>-th reading of the call.
\<close>

type_synonym clock = "nat \<Rightarrow> string"

text \<open>A clock that shows the same text at every reading, for concrete calls.\<close>

definition frozen_clock :: "string \<Rightarrow> clock" where
  "frozen_clock t k = t"

section \<open>Tables of the analyzer\<close>

record reference_range =
  ref_min :: rat
  ref_max :: rat
  ref_unit :: string
  ref_category :: string

definition reference_ranges :: "reference_range dict" where
  "reference_ranges =
    [(''glucose'', \<lparr>ref_min = 70, ref_max = 100, ref_unit = ''mg/dL'', ref_category = ''Metabolic''\<rparr>),
     (''hba1c'', \<lparr>ref_min = 4.0, ref_max = 5.6, ref_unit = ''%'', ref_category = ''Metabolic''\<rparr>),
     (''cholesterol'', \<lparr>ref_min = 125, ref_max = 200, ref_unit = ''mg/dL'', ref_category = ''Cardiovascular''\<rparr>),
     (''ldl'', \<lparr>ref_min = 0, ref_max = 100, ref_unit = ''mg/dL'', ref_category = ''Cardiovascular''\<rparr>),
     (''hdl'', \<lparr>ref_min = 40, ref_max = 60, ref_unit = ''mg/dL'', ref_category = ''Cardiovascular''\<rparr>),
     (''triglycerides'', \<lparr>ref_min = 0, ref_max = 150, ref_unit = ''mg/dL'', ref_category = ''Cardiovascular''\<rparr>),
     (''creatinine'', \<lparr>ref_min = 0.6, ref_max = 1.2, ref_unit = ''mg/dL'', ref_category = ''Renal''\<rparr>),
     (''bun'', \<lparr>ref_min = 7, ref_max = 20, ref_unit = ''mg/dL'', ref_category = ''Renal''\<rparr>),
     (''sodium'', \<lparr>ref_min = 135, ref_max = 145, ref_unit = ''mmol/L'', ref_category = ''Electrolytes''\<rparr>),
     (''potassium'', \<lparr>ref_min = 3.5, ref_max = 5.0, ref_unit = ''mmol/L'', ref_category = ''Electrolytes''\<rparr>),
     (''wbc'', \<lparr>ref_min = 4.5, ref_max = 11.0, ref_unit = ''10^3/uL'', ref_category = ''Hematology''\<rparr>),
     (''hemoglobin'', \<lparr>ref_min = 13.5, ref_max = 17.5, ref_unit = ''g/dL'', ref_category = ''Hematology''\<rparr>),
     (''platelets'', \<lparr>ref_min = 150, ref_max = 450, ref_unit = ''10^3/uL'', ref_category = ''Hematology''\<rparr>)]"

text \<open>\<^verbatim>\<open>status_colors\<close>: status to (color, text).\<close>

definition status_colors :: "(string \<times> string) dict" where
  "status_colors =
    [(''normal'', (''#10B981'', ''Normal'')),
     (''borderline'', (''#F59E0B'', ''Borderline'')),
     (''critical'', (''#EF4444'', ''Critical'')),
     (''warning'', (''#F97316'', ''Warning'')),
     (''good'', (''#3B82F6'', ''Good''))]"

definition interpretations :: "string dict dict" where
  "interpretations =
    [(''glucose'',
       [(''normal'', ''Normal fasting blood glucose level.''),
        (''borderline'', ''Slightly elevated blood glucose. Monitor diet.''),
        (''warning'', ''High blood glucose. May indicate prediabetes.''),
        (''critical'', ''Very high blood glucose. Possible diabetes.'')]),
     (''hba1c'',
       [(''normal'', ''Good long-term blood sugar control.''),
        (''borderline'', ''Moderate blood sugar control. Lifestyle changes recommended.''),
        (''warning'', ''Poor blood sugar control. May indicate diabetes.''),
        (''critical'', ''Very poor blood sugar control. Diabetes likely.'')]),
     (''ldl'',
       [(''normal'', ''Optimal LDL cholesterol level.''),
        (''borderline'', ''Borderline high LDL cholesterol.''),
        (''warning'', ''High LDL cholesterol. Increased heart disease risk.''),
        (''critical'', ''Very high LDL cholesterol. High heart disease risk.'')]),
     (''hdl'',
       [(''normal'', ''Good HDL cholesterol level.''),
        (''borderline'', ''Borderline low HDL cholesterol.''),
        (''warning'', ''Low HDL cholesterol. Increased heart disease risk.''),
        (''critical'', ''Very low HDL cholesterol. High heart disease risk.'')]),
     (''creatinine'',
       [(''normal'', ''Normal kidney function.''),
        (''borderline'', ''Slightly elevated creatinine. Monitor kidney function.''),
        (''warning'', ''High creatinine. Possible kidney impairment.''),
        (''critical'', ''Very high creatinine. Kidney dysfunction likely.'')])]"

section \<open>Categorizer\<close>

record lab_result =
  test_value :: rat
  unit :: string
  category :: string
  status :: string
  color :: string
  status_text :: string
  min_reference :: rat
  max_reference :: rat
  deviation_percent :: rat
  interpretation_text :: string

definition get_status_below :: "rat \<Rightarrow> rat \<Rightarrow> error + string" where
  "get_status_below min_val actual =
     (case py_div (min_val - actual) min_val of
        Inl e \<Rightarrow> Inl e
      | Inr q \<Rightarrow>
          (let deviation = q * 100
           in if deviation > 30 then Inr ''critical''
              else if deviation > 15 then Inr ''warning''
              else Inr ''borderline''))"

definition get_status_above :: "rat \<Rightarrow> rat \<Rightarrow> error + string" where
  "get_status_above max_val actual =
     (case py_div (actual - max_val) max_val of
        Inl e \<Rightarrow> Inl e
      | Inr q \<Rightarrow>
          (let deviation = q * 100
           in if deviation > 30 then Inr ''critical''
              else if deviation > 15 then Inr ''warning''
              else Inr ''borderline''))"

definition get_interpretation :: "string \<Rightarrow> rat \<Rightarrow> string \<Rightarrow> string" where
  "get_interpretation test_name v st =
     (case map_of interpretations test_name of
        Some tbl \<Rightarrow>
          (case map_of tbl st of
             Some txt \<Rightarrow> txt
           | None \<Rightarrow> ''Value is '' @ st @ '' compared to reference range.'')
      | None \<Rightarrow> ''Value is '' @ st @ '' compared to reference range.'')"

text \<open>
  The deviation and the status of one value against its range: the
  \<^verbatim>\<open>if/elif/else\<close> of the loop body. The division of the first two branches is
  evaluated before the status helper is called, and raises first.
\<close>

definition deviation_status :: "rat \<Rightarrow> rat \<Rightarrow> rat \<Rightarrow> error + rat \<times> string" where
  "deviation_status min_val max_val v =
     (if v < min_val then
        (case py_div (min_val - v) min_val of
           Inl e \<Rightarrow> Inl e
         | Inr q \<Rightarrow>
             (case get_status_below min_val v of
                Inl e \<Rightarrow> Inl e
              | Inr st \<Rightarrow> Inr (q * 100, st)))
      else if v > max_val then
        (case py_div (v - max_val) max_val of
           Inl e \<Rightarrow> Inl e
         | Inr q \<Rightarrow>
             (case get_status_above max_val v of
                Inl e \<Rightarrow> Inl e
              | Inr st \<Rightarrow> Inr (q * 100, st)))
      else Inr (0, ''normal''))"

definition categorize_entry :: "string \<Rightarrow> reference_range \<Rightarrow> rat \<Rightarrow> error + lab_result" where
  "categorize_entry test_name ref v =
     (case deviation_status (ref_min ref) (ref_max ref) v of
        Inl e \<Rightarrow> Inl e
      | Inr (deviation, st) \<Rightarrow>
          Inr \<lparr>test_value = v,
               unit = ref_unit ref,
               category = ref_category ref,
               status = st,
               color = (case map_of status_colors st of Some c \<Rightarrow> fst c | None \<Rightarrow> ''#6B7280''),
               status_text = (case map_of status_colors st of Some c \<Rightarrow> snd c | None \<Rightarrow> ''Unknown''),
               min_reference = ref_min ref,
               max_reference = ref_max ref,
               deviation_percent = py_round deviation 2,
               interpretation_text = get_interpretation test_name v st\<rparr>)"

text \<open>
  The loop of \<^verbatim>\<open>categorize_lab_results\<close> over the items of the snapshot, the
  dictionary built so far as accumulator. A snapshot maps test names to numbers, so the
  \<^verbatim>\<open>isinstance\<close> test holds of every item; a name without a reference range is
  skipped.
\<close>

fun categorize_loop :: "rat dict \<Rightarrow> lab_result dict \<Rightarrow> error + lab_result dict" where
  "categorize_loop [] categorized = Inr categorized"
| "categorize_loop ((test_name, v) # items) categorized =
     (case map_of reference_ranges test_name of
        None \<Rightarrow> categorize_loop items categorized
      | Some ref \<Rightarrow>
          (case categorize_entry test_name ref v of
             Inl e \<Rightarrow> Inl e
           | Inr res \<Rightarrow> categorize_loop items (AList.update test_name res categorized)))"

definition categorize_lab_results :: "rat dict \<Rightarrow> error + lab_result dict" where
  "categorize_lab_results lab_data = categorize_loop lab_data []"

section \<open>Health scorer\<close>

definition weights :: "rat dict" where
  "weights =
    [(''Metabolic'', 0.3),
     (''Cardiovascular'', 0.3),
     (''Renal'', 0.2),
     (''Hematology'', 0.1),
     (''Electrolytes'', 0.1)]"

definition status_points :: "rat dict" where
  "status_points =
    [(''normal'', 100),
     (''good'', 90),
     (''borderline'', 70),
     (''warning'', 40),
     (''critical'', 10)]"

text \<open>
  The result dictionary of \<^verbatim>\<open>calculate_health_score\<close>. The early return has the
  keys \<^verbatim>\<open>score\<close> and \<^verbatim>\<open>status\<close> only, so the other keys are optional.
\<close>

record health_score =
  score :: rat
  health_status :: string
  status_color :: "string option"
  category_breakdown :: "lab_result dict option"
  calculated_at :: "string option"

text \<open>
  The loop over the categorized results, with \<^verbatim>\<open>scores\<close> and
  \<^verbatim>\<open>total_weight\<close> as accumulators. Every result has the keys
  \<^verbatim>\<open>category\<close> and \<^verbatim>\<open>status\<close>.
\<close>

fun score_loop :: "lab_result dict \<Rightarrow> rat list \<Rightarrow> rat \<Rightarrow> rat list \<times> rat" where
  "score_loop [] scores total_weight = (scores, total_weight)"
| "score_loop ((test, data) # items) scores total_weight =
     (case map_of status_points (status data) of
        None \<Rightarrow> score_loop items scores total_weight
      | Some points \<Rightarrow>
          (let weight = (case map_of weights (category data) of Some w \<Rightarrow> w | None \<Rightarrow> 0.1)
           in score_loop items (scores @ [points * weight]) (total_weight + weight)))"

definition calculate_health_score :: "clock \<Rightarrow> rat dict \<Rightarrow> error + health_score" where
  "calculate_health_score clk lab_data =
     (if lab_data = [] then
        Inr \<lparr>score = 0, health_status = ''Insufficient Data'', status_color = None,
             category_breakdown = None, calculated_at = None\<rparr>
      else
        (case categorize_lab_results lab_data of
           Inl e \<Rightarrow> Inl e
         | Inr categorized \<Rightarrow>
             (let (scores, total_weight) = score_loop categorized [] 0;
                  avg_score = (if scores \<noteq> [] \<and> total_weight > 0
                               then sum_list scores / total_weight else 0);
                  (label, label_color) =
                    (if avg_score \<ge> 85 then (''Excellent'', ''#10B981'')
                     else if avg_score \<ge> 70 then (''Good'', ''#3B82F6'')
                     else if avg_score \<ge> 50 then (''Fair'', ''#F59E0B'')
                     else (''Needs Attention'', ''#EF4444''))
              in Inr \<lparr>score = py_round avg_score 1,
                      health_status = label,
                      status_color = Some label_color,
                      category_breakdown = Some categorized,
                      calculated_at = Some (clk 0)\<rparr>)))"

section \<open>Risk detector\<close>

text \<open>
  An indicator is an f-string around one number; its pieces are kept apart (text before,
  number, text after), the number is not rendered.
\<close>

datatype indicator = Indicator string rat string

record risk =
  condition :: string
  risk_level :: string
  indicators :: "indicator list"
  recommendations :: "string list"

record risk_report =
  detected_risks :: "risk list"
  total_risks :: nat
  highest_risk :: string
  analyzed_at :: string

text \<open>
  Each check reads its key only when the key is present
  (\<^verbatim>\<open>k in lab_data and lab_data[k] ...\<close>), which is the \<open>case\<close> on the lookup.
\<close>

definition diabetes_risk :: "rat dict \<Rightarrow> risk list" where
  "diabetes_risk lab_data =
     (case map_of lab_data ''hba1c'' of
        None \<Rightarrow> []
      | Some hba1c \<Rightarrow>
          if hba1c \<ge> 5.7 then
            [\<lparr>condition = ''Diabetes'',
              risk_level = (if hba1c \<ge> 6.5 then ''high'' else ''moderate''),
              indicators = [Indicator ''HbA1c: '' hba1c ''%''],
              recommendations =
                [''Consult endocrinologist'',
                 ''Monitor blood sugar regularly'',
                 ''Diet and exercise changes'']\<rparr>]
          else [])"

text \<open>
  The flag \<^verbatim>\<open>cardiovascular_risk\<close> and the list \<^verbatim>\<open>cv_indicators\<close>, through
  the three tests in the order of the source.
\<close>

definition cardiovascular_checks :: "rat dict \<Rightarrow> bool \<times> indicator list" where
  "cardiovascular_checks lab_data =
     (let s0 = (False, []);
          s1 = (case map_of lab_data ''ldl'' of
                  None \<Rightarrow> s0
                | Some ldl \<Rightarrow>
                    if ldl > 130 then (True, snd s0 @ [Indicator ''LDL: '' ldl '' mg/dL''])
                    else s0);
          s2 = (case map_of lab_data ''triglycerides'' of
                  None \<Rightarrow> s1
                | Some tg \<Rightarrow>
                    if tg > 150 then (True, snd s1 @ [Indicator ''Triglycerides: '' tg '' mg/dL''])
                    else s1);
          s3 = (case map_of lab_data ''hdl'' of
                  None \<Rightarrow> s2
                | Some hdl \<Rightarrow>
                    if hdl < 40 then (True, snd s2 @ [Indicator ''HDL: '' hdl '' mg/dL''])
                    else s2)
      in s3)"

definition cardiovascular_risk :: "rat dict \<Rightarrow> risk list" where
  "cardiovascular_risk lab_data =
     (case cardiovascular_checks lab_data of
        (flag, cv_indicators) \<Rightarrow>
          if flag then
            [\<lparr>condition = ''Cardiovascular Disease'',
              risk_level = ''moderate'',
              indicators = cv_indicators,
              recommendations =
                [''Cardiology consultation'',
                 ''Heart-healthy diet'',
                 ''Regular exercise'',
                 ''Cholesterol management'']\<rparr>]
          else [])"

definition kidney_risk :: "rat dict \<Rightarrow> risk list" where
  "kidney_risk lab_data =
     (case map_of lab_data ''creatinine'' of
        None \<Rightarrow> []
      | Some creatinine \<Rightarrow>
          if creatinine > 1.2 then
            [\<lparr>condition = ''Kidney Disease'',
              risk_level = (if creatinine \<le> 2.0 then ''moderate'' else ''high''),
              indicators = [Indicator ''Creatinine: '' creatinine '' mg/dL''],
              recommendations =
                [''Nephrology consultation'',
                 ''Monitor kidney function'',
                 ''Stay hydrated'',
                 ''Avoid NSAIDs'']\<rparr>]
          else [])"

text \<open>The list \<^verbatim>\<open>risks\<close> after the three checks, each appending at most one finding.\<close>

definition risk_checks :: "rat dict \<Rightarrow> risk list" where
  "risk_checks lab_data = diabetes_risk lab_data @ cardiovascular_risk lab_data @ kidney_risk lab_data"

text \<open>The body of the loop of the age adjustment, on one finding.\<close>

definition age_adjust :: "risk \<Rightarrow> risk" where
  "age_adjust r =
     (if risk_level r = ''moderate''
      then r\<lparr>risk_level := ''high'',
             recommendations :=
               recommendations r @ [''Age increases risk - more frequent monitoring needed'']\<rparr>
      else r)"

text \<open>
  \<^verbatim>\<open>max(xs, default=d)\<close> on strings: the first item is the candidate and a later
  item replaces it when it is greater, in the order of Python strings (by character
  code, a proper prefix first), which is \<open>(<)\<close> on \<open>string\<close> here.
\<close>

fun py_max :: "string list \<Rightarrow> string \<Rightarrow> string" where
  "py_max [] d = d"
| "py_max (x # xs) d = foldl (\<lambda>m y. if y > m then y else m) x xs"

definition detect_risk_factors :: "clock \<Rightarrow> rat dict \<Rightarrow> int \<Rightarrow> risk_report" where
  "detect_risk_factors clk lab_data patient_age =
     (let risks = risk_checks lab_data;
          risks = (if patient_age > 60 then map age_adjust risks else risks)
      in \<lparr>detected_risks = risks,
          total_risks = length risks,
          highest_risk = py_max (map risk_level risks) ''low'',
          analyzed_at = clk 0\<rparr>)"

section \<open>Trend analyzer\<close>

text \<open>
  A history record is a dictionary whose values are numbers or strings; the
  \<^verbatim>\<open>date\<close> of a record is whatever value that key holds.
\<close>

datatype pyval = Num rat | Str string

type_synonym points = "(pyval \<times> rat) list"

definition trend_recommendations :: "string dict dict" where
  "trend_recommendations =
    [(''glucose'',
       [(''increasing'', ''Blood sugar increasing. Review diet and medication.''),
        (''decreasing'', ''Blood sugar improving. Continue current management.''),
        (''stable'', ''Blood sugar stable. Maintain current regimen.'')]),
     (''ldl'',
       [(''increasing'', ''LDL cholesterol rising. Consider diet changes or medication adjustment.''),
        (''decreasing'', ''LDL cholesterol improving. Continue current treatment.''),
        (''stable'', ''LDL cholesterol stable. Maintain current approach.'')]),
     (''hba1c'',
       [(''increasing'', ''Long-term blood sugar control worsening. Review diabetes management.''),
        (''decreasing'', ''Blood sugar control improving. Good progress.''),
        (''stable'', ''Blood sugar control stable. Continue monitoring.'')])]"

definition get_trend_recommendation :: "string \<Rightarrow> string \<Rightarrow> rat \<Rightarrow> string" where
  "get_trend_recommendation test_name dir pc =
     (case map_of trend_recommendations test_name of
        Some tbl \<Rightarrow>
          (case map_of tbl dir of
             Some txt \<Rightarrow> txt
           | None \<Rightarrow> ''Value is '' @ dir @ ''. Discuss with healthcare provider.'')
      | None \<Rightarrow> ''Value is '' @ dir @ ''. Discuss with healthcare provider.'')"

record trend =
  direction :: string
  percent_change :: rat
  first_value :: rat
  last_value :: rat
  first_date :: pyval
  last_date :: pyval
  data_points :: nat
  trend_color :: string
  recommendation :: string

record trend_report =
  trends :: "trend dict"
  analyzed_tests :: nat
  analysis_period :: "pyval \<times> pyval"
  generated_at :: string

datatype trend_result = Message string | Report trend_report

text \<open>
  Grouping. The inner loop runs over the items of one record and appends a point to the
  list of every key that holds a number; the outer loop gives the \<open>k\<close>-th record its
  date (\<open>date_of\<close>), the default of \<^verbatim>\<open>record.get\<close> being one reading of the clock
  per record (the argument is evaluated whether or not the key is present).
\<close>

fun record_loop :: "pyval \<Rightarrow> pyval dict \<Rightarrow> points dict \<Rightarrow> points dict" where
  "record_loop date [] test_data = test_data"
| "record_loop date ((test, Num x) # items) test_data =
     record_loop date items
       (AList.update test
          ((case map_of test_data test of None \<Rightarrow> [] | Some pts \<Rightarrow> pts) @ [(date, x)])
          test_data)"
| "record_loop date ((test, Str s) # items) test_data = record_loop date items test_data"

definition date_of :: "clock \<Rightarrow> nat \<Rightarrow> pyval dict \<Rightarrow> pyval" where
  "date_of clk k record = (case map_of record ''date'' of Some d \<Rightarrow> d | None \<Rightarrow> Str (clk k))"

fun group_loop :: "clock \<Rightarrow> nat \<Rightarrow> pyval dict list \<Rightarrow> points dict \<Rightarrow> points dict" where
  "group_loop clk k [] test_data = test_data"
| "group_loop clk k (record # rest) test_data =
     (let date = date_of clk k record
      in group_loop clk (Suc k) rest (record_loop date record test_data))"

text \<open>
  \<^verbatim>\<open>sorted(data_points, key=lambda x: x["date"])\<close>: a stable sort. Strings compare
  with strings and numbers with numbers; a list that holds both kinds of date compares
  a string with a number somewhere and raises \<^verbatim>\<open>TypeError\<close>.
\<close>

fun is_str :: "pyval \<Rightarrow> bool" where
  "is_str (Str s) = True"
| "is_str (Num x) = False"

fun str_of :: "pyval \<Rightarrow> string" where
  "str_of (Str s) = s"
| "str_of (Num x) = []"

fun num_of :: "pyval \<Rightarrow> rat" where
  "num_of (Num x) = x"
| "num_of (Str s) = 0"

definition sorted_by_date :: "points \<Rightarrow> error + points" where
  "sorted_by_date pts =
     (if list_all (\<lambda>p. is_str (fst p)) pts then Inr (sort_key (\<lambda>p. str_of (fst p)) pts)
      else if list_all (\<lambda>p. \<not> is_str (fst p)) pts then Inr (sort_key (\<lambda>p. num_of (fst p)) pts)
      else Inl TypeError)"

text \<open>The entry of one test, from its sorted points (at least two).\<close>

definition trend_entry :: "string \<Rightarrow> points \<Rightarrow> trend" where
  "trend_entry test sorted_data =
     (let vals = map snd sorted_data;
          dates = map fst sorted_data;
          first_val = hd vals;
          last_val = last vals;
          pc = (if first_val \<noteq> 0 then ((last_val - first_val) / first_val) * 100 else 0);
          lower_better = (test \<in> set [''glucose'', ''ldl'', ''creatinine'']);
          (dir, col) =
            (if \<bar>pc\<bar> < 5 then (''stable'', ''#6B7280'')
             else if pc > 0 then
               (''increasing'', if lower_better then ''#EF4444'' else ''#10B981'')
             else
               (''decreasing'', if lower_better then ''#10B981'' else ''#EF4444''))
      in \<lparr>direction = dir,
          percent_change = py_round pc 1,
          first_value = first_val,
          last_value = last_val,
          first_date = hd dates,
          last_date = last dates,
          data_points = length vals,
          trend_color = col,
          recommendation = get_trend_recommendation test dir pc\<rparr>)"

text \<open>
  The loop over the grouped tests. \<^verbatim>\<open>sorted_data\<close> is a local variable that the
  loop body binds, so it is unbound until some test has two points; the loop hands
  its last binding on, and \<open>found\<close> is the dictionary \<^verbatim>\<open>trends\<close> built so far. The inner test on the number of values repeats the outer one.
\<close>

fun trend_loop ::
  "points dict \<Rightarrow> trend dict \<Rightarrow> points option \<Rightarrow> error + trend dict \<times> points option" where
  "trend_loop [] found sorted_data = Inr (found, sorted_data)"
| "trend_loop ((test, pts) # items) found sorted_data =
     (if length pts \<ge> 2 then
        (case sorted_by_date pts of
           Inl e \<Rightarrow> Inl e
         | Inr sd \<Rightarrow>
             (if length (map snd sd) \<ge> 2
              then trend_loop items (AList.update test (trend_entry test sd) found) (Some sd)
              else trend_loop items found (Some sd)))
      else trend_loop items found sorted_data)"

definition generate_trend_analysis :: "clock \<Rightarrow> pyval dict list \<Rightarrow> error + trend_result" where
  "generate_trend_analysis clk historical_data =
     (if length historical_data < 2 then
        Inr (Message ''Insufficient historical data for trend analysis'')
      else
        (case trend_loop (group_loop clk 0 historical_data []) [] None of
           Inl e \<Rightarrow> Inl e
         | Inr (found, sorted_data) \<Rightarrow>
             (case sorted_data of
                None \<Rightarrow> Inl UnboundLocalError
              | Some sd \<Rightarrow>
                  Inr (Report
                    \<lparr>trends = found,
                     analyzed_tests = length found,
                     analysis_period = (fst (hd sd), fst (last sd)),
                     generated_at = clk (length historical_data)\<rparr>))))"

section \<open>Observations of a test\<close>





section \<open>Results without their timestamps\<close>

text \<open>
  Each result carries the clock reading of its call. These functions blank that field,
  to compare what else two calls return.
\<close>

definition without_calculated_at :: "health_score \<Rightarrow> health_score" where
  "without_calculated_at r = r\<lparr>calculated_at := None\<rparr>"

definition without_analyzed_at :: "risk_report \<Rightarrow> risk_report" where
  "without_analyzed_at r = r\<lparr>analyzed_at := []\<rparr>"

definition without_generated_at :: "trend_result \<Rightarrow> trend_result" where
  "without_generated_at res =
     (case res of Message m \<Rightarrow> Message m | Report rep \<Rightarrow> Report (rep\<lparr>generated_at := []\<rparr>))"

text \<open>The record has the key \<^verbatim>\<open>date\<close>, so the default of \<^verbatim>\<open>record.get\<close> is not used.\<close>

definition has_date :: "pyval dict \<Rightarrow> bool" where
  "has_date record = (map_of record ''date'' \<noteq> None)"

section \<open>Properties of the categorizer\<close>

text \<open>
  C2. The categorizer is claimed to have no error condition. A value below a minimum
  of 0 (the ranges of \<^verbatim>\<open>ldl\<close> and \<^verbatim>\<open>triglycerides\<close>) divides by that minimum:
  on the snapshot \<^verbatim>\<open>{"ldl": -1}\<close> the call raises \<^verbatim>\<open>ZeroDivisionError\<close>.
\<close>

theorem categorize_negative_ldl_raises:
  "categorize_lab_results [(''ldl'', - 1)] = Inl ZeroDivisionError"
  by (simp add: categorize_lab_results_def reference_ranges_def categorize_entry_def
      deviation_status_def py_div_def)









section \<open>Properties of the risk detector\<close>

lemmas risk_defs =
  detect_risk_factors_def risk_checks_def diabetes_risk_def cardiovascular_risk_def
  cardiovascular_checks_def kidney_risk_def age_adjust_def

text \<open>
  C1. The report is claimed to give as highest risk the greatest level under
  high > moderate > low. The code takes the maximum of the level strings, and as
  strings \<^verbatim>\<open>"high" < "low" < "moderate"\<close>: for \<^verbatim>\<open>{"hba1c": 7.0, "ldl": 140}\<close>
  at age 50 the findings have the levels high and moderate, and the report says
  moderate.
\<close>

theorem highest_risk_is_string_maximum:
  "map risk_level (detected_risks (detect_risk_factors clk [(''hba1c'', 7.0), (''ldl'', 140)] 50)) =
     [''high'', ''moderate''] \<and>
   highest_risk (detect_risk_factors clk [(''hba1c'', 7.0), (''ldl'', 140)] 50) = ''moderate''"
  by (simp add: risk_defs)

lemma condition_age_adjust: "condition (age_adjust r) = condition r"
  by (simp add: age_adjust_def)

lemma diabetes_condition:
  "map condition (diabetes_risk lab_data) \<in> {[], [''Diabetes'']}"
  by (simp add: diabetes_risk_def split: option.splits)

lemma cardiovascular_condition:
  "map condition (cardiovascular_risk lab_data) \<in> {[], [''Cardiovascular Disease'']}"
  by (simp add: cardiovascular_risk_def split: prod.splits)

lemma kidney_condition:
  "map condition (kidney_risk lab_data) \<in> {[], [''Kidney Disease'']}"
  by (simp add: kidney_risk_def split: option.splits)

lemma risk_checks_conditions:
  "subseq (map condition (risk_checks lab_data))
     [''Diabetes'', ''Cardiovascular Disease'', ''Kidney Disease''] \<and>
   distinct (map condition (risk_checks lab_data)) \<and>
   length (risk_checks lab_data) \<le> 3"
  using diabetes_condition [of lab_data] cardiovascular_condition [of lab_data]
    kidney_condition [of lab_data]
  by (auto simp: risk_checks_def)

text \<open>
  C10. The findings are at most three, at most one for each condition, in the order
  Diabetes, Cardiovascular Disease, Kidney Disease, and the reported total is the
  number of findings.
\<close>

theorem at_most_three_findings:
  "subseq (map condition (detected_risks (detect_risk_factors clk lab_data patient_age)))
     [''Diabetes'', ''Cardiovascular Disease'', ''Kidney Disease''] \<and>
   distinct (map condition (detected_risks (detect_risk_factors clk lab_data patient_age))) \<and>
   length (detected_risks (detect_risk_factors clk lab_data patient_age)) \<le> 3 \<and>
   total_risks (detect_risk_factors clk lab_data patient_age) =
     length (detected_risks (detect_risk_factors clk lab_data patient_age))"
proof -
  have m: "map condition (detected_risks (detect_risk_factors clk lab_data patient_age)) =
      map condition (risk_checks lab_data)"
    by (simp add: detect_risk_factors_def Let_def condition_age_adjust comp_def)
  have l: "length (detected_risks (detect_risk_factors clk lab_data patient_age)) =
      length (risk_checks lab_data)"
    by (simp add: detect_risk_factors_def Let_def)
  have t: "total_risks (detect_risk_factors clk lab_data patient_age) =
     length (detected_risks (detect_risk_factors clk lab_data patient_age))"
    by (simp add: detect_risk_factors_def Let_def)
  from risk_checks_conditions [of lab_data] t show ?thesis
    unfolding m l by simp
qed

text \<open>
  C5. The claim has the escalation from age 60 on. The test of the code is
  \<^verbatim>\<open>patient_age > 60\<close>: at age 60 a moderate finding stays as the checks made it.
\<close>

theorem age_sixty_not_escalated:
  "detected_risks (detect_risk_factors (frozen_clock ''2024-01-01T00:00:00'') [(''ldl'', 140)] 60) =
     [\<lparr>condition = ''Cardiovascular Disease'',
       risk_level = ''moderate'',
       indicators = [Indicator ''LDL: '' 140 '' mg/dL''],
       recommendations =
         [''Cardiology consultation'', ''Heart-healthy diet'', ''Regular exercise'',
          ''Cholesterol management'']\<rparr>]"
  by (simp add: risk_defs)

text \<open>
  C5, as amended. For a patient older than 60, every finding that the three checks
  left at moderate is reported as high, with one more recommendation appended; its
  condition and indicators are unchanged.
\<close>

theorem age_over_sixty_escalates:
  assumes "patient_age > 60"
  shows "length (detected_risks (detect_risk_factors clk lab_data patient_age)) =
           length (risk_checks lab_data) \<and>
         (\<forall>i < length (risk_checks lab_data).
            risk_level (risk_checks lab_data ! i) = ''moderate'' \<longrightarrow>
              risk_level (detected_risks (detect_risk_factors clk lab_data patient_age) ! i) = ''high'' \<and>
              recommendations (detected_risks (detect_risk_factors clk lab_data patient_age) ! i) =
                recommendations (risk_checks lab_data ! i) @
                  [''Age increases risk - more frequent monitoring needed''] \<and>
              condition (detected_risks (detect_risk_factors clk lab_data patient_age) ! i) =
                condition (risk_checks lab_data ! i) \<and>
              indicators (detected_risks (detect_risk_factors clk lab_data patient_age) ! i) =
                indicators (risk_checks lab_data ! i))"
  using assms by (simp add: detect_risk_factors_def Let_def age_adjust_def)

theorem age_over_sixty_escalates_witness:
  "(70::int) > 60 \<and>
   (0::nat) < length (risk_checks [(''ldl'', 140)]) \<and>
   risk_level (risk_checks [(''ldl'', 140)] ! 0) = ''moderate'' \<and>
   risk_level (detected_risks (detect_risk_factors (frozen_clock ''2024-01-01T00:00:00'')
      [(''ldl'', 140)] 70) ! 0) = ''high'' \<and>
   recommendations (detected_risks (detect_risk_factors (frozen_clock ''2024-01-01T00:00:00'')
      [(''ldl'', 140)] 70) ! 0) =
     [''Cardiology consultation'', ''Heart-healthy diet'', ''Regular exercise'',
      ''Cholesterol management'', ''Age increases risk - more frequent monitoring needed'']"
proof -
  have a: "(70::int) > 60" by simp
  have b: "risk_checks [(''ldl'', 140)] =
     [\<lparr>condition = ''Cardiovascular Disease'',
       risk_level = ''moderate'',
       indicators = [Indicator ''LDL: '' 140 '' mg/dL''],
       recommendations =
         [''Cardiology consultation'', ''Heart-healthy diet'', ''Regular exercise'',
          ''Cholesterol management'']\<rparr>]"
    by (simp add: risk_defs)
  from age_over_sixty_escalates [OF a, of "frozen_clock ''2024-01-01T00:00:00''" "[(''ldl'', 140)]"]
  show ?thesis
    unfolding b by simp
qed

section \<open>Properties of the health scorer\<close>

lemma categorize_loop_unrecognised:
  "list_all (\<lambda>p. map_of reference_ranges (fst p) = None) items \<Longrightarrow>
     categorize_loop items acc = Inr acc"
  by (induction items arbitrary: acc) auto

lemma py_round_zero: "py_round 0 n = 0"
  by (simp add: py_round_def)

lemma health_status_label:
  "lab_data \<noteq> [] \<Longrightarrow> calculate_health_score clk lab_data = Inr r \<Longrightarrow>
     health_status r \<in> set [''Excellent'', ''Good'', ''Fair'', ''Needs Attention'']"
  by (auto simp: calculate_health_score_def Let_def split: sum.splits prod.splits if_splits)

text \<open>
  C6. The sentinel is claimed for every snapshot without a test of the reference table.
  The guard of the code is \<^verbatim>\<open>if not lab_data\<close>, the empty snapshot only:
  \<^verbatim>\<open>{"foo": 1}\<close>, whose one name has no reference range, goes through the scoring
  and comes out with score 0 and status Needs Attention.
\<close>

theorem unrecognised_snapshot_needs_attention:
  "map_of reference_ranges ''foo'' = None \<and>
   calculate_health_score (frozen_clock ''2024-01-01T00:00:00'') [(''foo'', 1)] =
     Inr \<lparr>score = 0, health_status = ''Needs Attention'', status_color = Some ''#EF4444'',
          category_breakdown = Some [], calculated_at = Some ''2024-01-01T00:00:00''\<rparr>"
  by (simp add: calculate_health_score_def categorize_lab_results_def reference_ranges_def
      py_round_def frozen_clock_def)

text \<open>
  C6, as amended. The empty snapshot gives the sentinel, score 0 and status
  Insufficient Data. A snapshot that is not empty never gives that status: when the
  scorer returns, the status is one of the four tier labels. A snapshot that is not
  empty and has no test of the reference table gives score 0 and status Needs Attention.
\<close>

theorem empty_snapshot_sentinel:
  "calculate_health_score clk [] =
     Inr \<lparr>score = 0, health_status = ''Insufficient Data'', status_color = None,
          category_breakdown = None, calculated_at = None\<rparr> \<and>
   (lab_data \<noteq> [] \<and> calculate_health_score clk lab_data = Inr r \<longrightarrow>
      health_status r \<in> set [''Excellent'', ''Good'', ''Fair'', ''Needs Attention''] \<and>
      health_status r \<noteq> ''Insufficient Data'') \<and>
   (lab_data \<noteq> [] \<and> list_all (\<lambda>p. map_of reference_ranges (fst p) = None) lab_data \<longrightarrow>
      calculate_health_score clk lab_data =
        Inr \<lparr>score = 0, health_status = ''Needs Attention'', status_color = Some ''#EF4444'',
             category_breakdown = Some [], calculated_at = Some (clk 0)\<rparr>)"
proof (intro conjI impI)
  show "calculate_health_score clk [] =
     Inr \<lparr>score = 0, health_status = ''Insufficient Data'', status_color = None,
          category_breakdown = None, calculated_at = None\<rparr>"
    by (simp add: calculate_health_score_def)
next
  assume a: "lab_data \<noteq> [] \<and> calculate_health_score clk lab_data = Inr r"
  then have "health_status r \<in> set [''Excellent'', ''Good'', ''Fair'', ''Needs Attention'']"
    by (blast intro: health_status_label)
  then show "health_status r \<in> set [''Excellent'', ''Good'', ''Fair'', ''Needs Attention'']"
    and "health_status r \<noteq> ''Insufficient Data''"
    by auto
next
  assume a: "lab_data \<noteq> [] \<and> list_all (\<lambda>p. map_of reference_ranges (fst p) = None) lab_data"
  then have "categorize_lab_results lab_data = Inr []"
    by (simp add: categorize_lab_results_def categorize_loop_unrecognised)
  with a show "calculate_health_score clk lab_data =
        Inr \<lparr>score = 0, health_status = ''Needs Attention'', status_color = Some ''#EF4444'',
             category_breakdown = Some [], calculated_at = Some (clk 0)\<rparr>"
    by (simp add: calculate_health_score_def py_round_zero)
qed

theorem empty_snapshot_sentinel_witness:
  "[(''foo'', 1::rat)] \<noteq> [] \<and>
   list_all (\<lambda>p. map_of reference_ranges (fst p) = None) [(''foo'', 1::rat)] \<and>
   calculate_health_score (frozen_clock ''2024-01-01T00:00:00'') [(''foo'', 1)] =
     Inr \<lparr>score = 0, health_status = ''Needs Attention'', status_color = Some ''#EF4444'',
          category_breakdown = Some [], calculated_at = Some ''2024-01-01T00:00:00''\<rparr> \<and>
   health_status \<lparr>score = 0, health_status = ''Needs Attention'', status_color = Some ''#EF4444'',
          category_breakdown = Some [], calculated_at = Some ''2024-01-01T00:00:00''\<rparr>
     \<noteq> ''Insufficient Data''"
proof -
  have n: "[(''foo'', 1::rat)] \<noteq> []" by simp
  have u: "list_all (\<lambda>p. map_of reference_ranges (fst p) = None) [(''foo'', 1::rat)]"
    by (simp add: reference_ranges_def)
  from empty_snapshot_sentinel [of "frozen_clock ''2024-01-01T00:00:00''" "[(''foo'', 1)]"
      "\<lparr>score = 0, health_status = ''Needs Attention'', status_color = Some ''#EF4444'',
          category_breakdown = Some [], calculated_at = Some ''2024-01-01T00:00:00''\<rparr>"] n u
  show ?thesis
    by (simp add: frozen_clock_def)
qed

section \<open>Properties of the trend analyzer\<close>

text \<open>
  C3. A history of fewer than two records gives the message. A history of two or more
  records is claimed to give a report in every case, without an exception. The return
  statement reads \<^verbatim>\<open>sorted_data\<close>, which only the loop body binds, for a test with
  two points: on two records that share no test the name is unbound and the call raises
  \<^verbatim>\<open>UnboundLocalError\<close>.
\<close>

theorem trend_analysis_unbound_sorted_data:
  "generate_trend_analysis clk [] =
     Inr (Message ''Insufficient historical data for trend analysis'') \<and>
   generate_trend_analysis clk [r] =
     Inr (Message ''Insufficient historical data for trend analysis'') \<and>
   generate_trend_analysis clk
     [[(''date'', Str ''2024-01-01''), (''glucose'', Num 100)],
      [(''date'', Str ''2024-02-01''), (''ldl'', Num 90)]] = Inl UnboundLocalError"
  by (simp add: generate_trend_analysis_def)




















section \<open>Determinism\<close>

lemma group_loop_dated:
  "list_all has_date h \<Longrightarrow> group_loop clk1 k1 h td = group_loop clk2 k2 h td"
  by (induction h arbitrary: k1 k2 td) (auto simp: has_date_def date_of_def)

text \<open>
  C4. Two calls with the same input are claimed to return identical results. Each
  result holds a reading of the clock (\<^verbatim>\<open>calculated_at\<close>, \<^verbatim>\<open>analyzed_at\<close>,
  \<^verbatim>\<open>generated_at\<close>), so two calls at different times differ; and a history record
  without a date is dated by the clock, so the trend itself can turn around.
\<close>

theorem results_differ_with_clock:
  "calculate_health_score (frozen_clock ''2024-01-01T00:00:00'') [(''glucose'', 90)] \<noteq>
     calculate_health_score (frozen_clock ''2025-01-01T00:00:00'') [(''glucose'', 90)] \<and>
   detect_risk_factors (frozen_clock ''2024-01-01T00:00:00'') [(''ldl'', 140)] 50 \<noteq>
     detect_risk_factors (frozen_clock ''2025-01-01T00:00:00'') [(''ldl'', 140)] 50 \<and>
   generate_trend_analysis (frozen_clock ''2024-01-01T00:00:00'')
     [[(''glucose'', Num 100)], [(''date'', Str ''2024-06-01''), (''glucose'', Num 200)]] =
     Inr (Report
       \<lparr>trends =
          [(''glucose'',
            \<lparr>direction = ''increasing'', percent_change = 100,
             first_value = 100, last_value = 200,
             first_date = Str ''2024-01-01T00:00:00'', last_date = Str ''2024-06-01'',
             data_points = 2, trend_color = ''#EF4444'',
             recommendation = ''Blood sugar increasing. Review diet and medication.''\<rparr>)],
        analyzed_tests = 1,
        analysis_period = (Str ''2024-01-01T00:00:00'', Str ''2024-06-01''),
        generated_at = ''2024-01-01T00:00:00''\<rparr>) \<and>
   generate_trend_analysis (frozen_clock ''2025-01-01T00:00:00'')
     [[(''glucose'', Num 100)], [(''date'', Str ''2024-06-01''), (''glucose'', Num 200)]] =
     Inr (Report
       \<lparr>trends =
          [(''glucose'',
            \<lparr>direction = ''decreasing'', percent_change = - 50,
             first_value = 200, last_value = 100,
             first_date = Str ''2024-06-01'', last_date = Str ''2025-01-01T00:00:00'',
             data_points = 2, trend_color = ''#10B981'',
             recommendation = ''Blood sugar improving. Continue current management.''\<rparr>)],
        analyzed_tests = 1,
        analysis_period = (Str ''2024-06-01'', Str ''2025-01-01T00:00:00''),
        generated_at = ''2025-01-01T00:00:00''\<rparr>)"
proof (intro conjI)
  show "calculate_health_score (frozen_clock ''2024-01-01T00:00:00'') [(''glucose'', 90)] \<noteq>
     calculate_health_score (frozen_clock ''2025-01-01T00:00:00'') [(''glucose'', 90)]"
    by (simp add: calculate_health_score_def categorize_lab_results_def reference_ranges_def
        categorize_entry_def deviation_status_def frozen_clock_def Let_def
        split: prod.splits)
next
  show "detect_risk_factors (frozen_clock ''2024-01-01T00:00:00'') [(''ldl'', 140)] 50 \<noteq>
     detect_risk_factors (frozen_clock ''2025-01-01T00:00:00'') [(''ldl'', 140)] 50"
    by (simp add: detect_risk_factors_def frozen_clock_def Let_def)
next
  show "generate_trend_analysis (frozen_clock ''2024-01-01T00:00:00'')
     [[(''glucose'', Num 100)], [(''date'', Str ''2024-06-01''), (''glucose'', Num 200)]] =
     Inr (Report
       \<lparr>trends =
          [(''glucose'',
            \<lparr>direction = ''increasing'', percent_change = 100,
             first_value = 100, last_value = 200,
             first_date = Str ''2024-01-01T00:00:00'', last_date = Str ''2024-06-01'',
             data_points = 2, trend_color = ''#EF4444'',
             recommendation = ''Blood sugar increasing. Review diet and medication.''\<rparr>)],
        analyzed_tests = 1,
        analysis_period = (Str ''2024-01-01T00:00:00'', Str ''2024-06-01''),
        generated_at = ''2024-01-01T00:00:00''\<rparr>)"
    by code_simp
next
  show "generate_trend_analysis (frozen_clock ''2025-01-01T00:00:00'')
     [[(''glucose'', Num 100)], [(''date'', Str ''2024-06-01''), (''glucose'', Num 200)]] =
     Inr (Report
       \<lparr>trends =
          [(''glucose'',
            \<lparr>direction = ''decreasing'', percent_change = - 50,
             first_value = 200, last_value = 100,
             first_date = Str ''2024-06-01'', last_date = Str ''2025-01-01T00:00:00'',
             data_points = 2, trend_color = ''#10B981'',
             recommendation = ''Blood sugar improving. Continue current management.''\<rparr>)],
        analyzed_tests = 1,
        analysis_period = (Str ''2024-06-01'', Str ''2025-01-01T00:00:00''),
        generated_at = ''2025-01-01T00:00:00''\<rparr>)"
    by code_simp
qed

text \<open>
  C4, as amended. Apart from the timestamp of the result, the scorer and the risk
  detector return the same for the same input whatever the clock shows, and so does
  the trend analyzer on a history whose records all have a date.
\<close>

theorem results_equal_apart_from_timestamps:
  "map_sum id without_calculated_at (calculate_health_score clk1 lab_data) =
     map_sum id without_calculated_at (calculate_health_score clk2 lab_data) \<and>
   without_analyzed_at (detect_risk_factors clk1 lab_data patient_age) =
     without_analyzed_at (detect_risk_factors clk2 lab_data patient_age) \<and>
   (list_all has_date h \<longrightarrow>
      map_sum id without_generated_at (generate_trend_analysis clk1 h) =
        map_sum id without_generated_at (generate_trend_analysis clk2 h))"
proof (intro conjI impI)
  show "map_sum id without_calculated_at (calculate_health_score clk1 lab_data) =
     map_sum id without_calculated_at (calculate_health_score clk2 lab_data)"
    by (simp add: calculate_health_score_def without_calculated_at_def Let_def
        split: sum.splits prod.splits)
next
  show "without_analyzed_at (detect_risk_factors clk1 lab_data patient_age) =
     without_analyzed_at (detect_risk_factors clk2 lab_data patient_age)"
    by (simp add: detect_risk_factors_def without_analyzed_at_def Let_def)
next
  assume "list_all has_date h"
  then have g: "group_loop clk1 0 h [] = group_loop clk2 0 h []"
    by (rule group_loop_dated)
  show "map_sum id without_generated_at (generate_trend_analysis clk1 h) =
        map_sum id without_generated_at (generate_trend_analysis clk2 h)"
    by (simp add: generate_trend_analysis_def g without_generated_at_def
        split: sum.splits prod.splits option.splits)
qed

theorem results_equal_apart_from_timestamps_witness:
  "list_all has_date
     [[(''date'', Str ''2024-01-01''), (''glucose'', Num 100)],
      [(''date'', Str ''2024-06-01''), (''glucose'', Num 200)]] \<and>
   map_sum id without_generated_at
     (generate_trend_analysis (frozen_clock ''2024-01-01T00:00:00'')
        [[(''date'', Str ''2024-01-01''), (''glucose'', Num 100)],
         [(''date'', Str ''2024-06-01''), (''glucose'', Num 200)]]) =
   map_sum id without_generated_at
     (generate_trend_analysis (frozen_clock ''2025-01-01T00:00:00'')
        [[(''date'', Str ''2024-01-01''), (''glucose'', Num 100)],
         [(''date'', Str ''2024-06-01''), (''glucose'', Num 200)]])"
proof -
  have d: "list_all has_date
     [[(''date'', Str ''2024-01-01''), (''glucose'', Num 100)],
      [(''date'', Str ''2024-06-01''), (''glucose'', Num 200)]]"
    by (simp add: has_date_def)
  from results_equal_apart_from_timestamps
    [of "frozen_clock ''2024-01-01T00:00:00''" "[]" "frozen_clock ''2025-01-01T00:00:00''" 0
      "[[(''date'', Str ''2024-01-01''), (''glucose'', Num 100)],
        [(''date'', Str ''2024-06-01''), (''glucose'', Num 200)]]"] d
  show ?thesis by simp
qed

end
